theory Spec2Isabelle
  imports Main "HOL-Library.AList" "HOL-Library.Char_ord" "HOL-Library.List_Lexorder"
begin

section \<open>Data model of main.go\<close>

text \<open>
  The embedding covers the poll loop of \<^verbatim>\<open>main\<close> (main.go, lines 110 to 157) and the
  functions it calls: \<^verbatim>\<open>loadRoleMapping\<close>, \<^verbatim>\<open>cleanupTargetsDir\<close>, \<^verbatim>\<open>getNodes\<close> and
  \<^verbatim>\<open>writeNodes\<close>. A Go \<^verbatim>\<open>error\<close> is its message; a function returning \<^verbatim>\<open>(x, err)\<close>
  returns a pair whose second component is \<open>None\<close> for \<^verbatim>\<open>nil\<close>.
\<close>

type_synonym error = string

record Config =
  PuppetDBURL :: string
  Query :: string
  Filter :: string
  RoleMappingFile :: string
  TargetsDir :: string
  Sleep :: string

record Node =
  Certname :: string
  Ipaddress :: string

record RoleMapping =
  Exporter :: string
  Port :: int
  Path :: string
  Scheme :: string
  Roles :: "string list"

record Targets =
  Targets :: "string list"
  Labels :: "string \<rightharpoonup> string"

text \<open>
  What the program prints on standard output: \<^verbatim>\<open>fmt.Println(err)\<close> and
  \<^verbatim>\<open>fmt.Printf("Sleeping for %v\n", sleep)\<close>.
\<close>

datatype printed = Println error | Printf_Sleeping int

text \<open>
  How one pass of the loop body ends: \<^verbatim>\<open>os.Exit(code)\<close>; the \<^verbatim>\<open>break\<close> of line 152, after
  which \<^verbatim>\<open>main\<close> returns; or \<^verbatim>\<open>time.Sleep\<close>, after which the loop goes round again.
\<close>

datatype status = Exit nat | Return | Slept int

text \<open>
  The exit status of the process: a Go program whose \<^verbatim>\<open>main\<close> returns ends with
  status 0.
\<close>

fun exit_status :: "status \<Rightarrow> nat option" where
  "exit_status (Exit code) = Some code"
| "exit_status Return = Some 0"
| "exit_status (Slept d) = None"

section \<open>The world outside the program\<close>

text \<open>
  The target directory: whether it exists, and its entries (name and content). Only
  direct entries are modelled; the role-mapping file is not one of them.
\<close>

record fs =
  dir_exists :: bool
  entries :: "(string \<times> string) list"

text \<open>
  The libraries and the operating system, as the program sees them during one cycle:
  within a cycle a call with the same arguments has the same result. Every field is the
  result of one library call:
  \<^item> \<open>filepath_Abs\<close>, \<open>ReadFile\<close> (the bytes read and the error), \<open>yaml_decode\<close>
    (\<^verbatim>\<open>yaml.Unmarshal\<close> into \<^verbatim>\<open>[]RoleMapping\<close>, on input that is not empty);
  \<^item> \<open>ReadDir_error\<close>, \<open>Remove_error\<close>: the failures of \<^verbatim>\<open>ioutil.ReadDir\<close> on a
    directory that exists and of \<^verbatim>\<open>os.Remove\<close> on an entry that exists;
  \<^item> \<open>regexp_other\<close>: the first result of \<^verbatim>\<open>regexp.MatchString\<close> on a pattern or a
    subject outside the fragment that \<open>regexp_MatchString\<close> below spells out;
  \<^item> \<open>http_post\<close> (\<^verbatim>\<open>http.NewRequest\<close>, \<^verbatim>\<open>client.Do\<close> and \<^verbatim>\<open>ioutil.ReadAll\<close>: the
    response body or the first error), \<open>json_decode\<close> (\<^verbatim>\<open>json.Unmarshal\<close> into
    \<^verbatim>\<open>[]Node\<close>);
  \<^item> \<open>yaml_Marshal\<close>, \<open>MkdirAll_ok\<close>, \<open>WriteFile_fault\<close> (the failure of
    \<^verbatim>\<open>ioutil.WriteFile\<close> on a direct entry of a directory that exists: the error, and
    the truncated content the file is left with, if any), \<open>WriteFile_nested\<close> (the
    effect of \<^verbatim>\<open>ioutil.WriteFile\<close> on a path that is not a direct entry);
  \<^item> \<open>ParseDuration\<close>.
\<close>

record world =
  filepath_Abs :: "string \<Rightarrow> string"
  ReadFile :: "string \<Rightarrow> string \<times> error option"
  yaml_decode :: "string \<Rightarrow> RoleMapping list \<times> error option"
  ReadDir_error :: "string \<Rightarrow> error option"
  Remove_error :: "string \<Rightarrow> error option"
  regexp_other :: "string \<Rightarrow> string \<Rightarrow> bool"
  http_post :: "string \<Rightarrow> string \<Rightarrow> string \<times> error option"
  json_decode :: "string \<Rightarrow> Node list \<times> error option"
  yaml_Marshal :: "Targets list \<Rightarrow> string \<times> error option"
  MkdirAll_ok :: bool
  WriteFile_fault :: "string \<Rightarrow> (error \<times> string option) option"
  WriteFile_nested :: "string \<Rightarrow> string \<Rightarrow> fs \<Rightarrow> fs \<times> error option"
  ParseDuration :: "string \<Rightarrow> int \<times> error option"

section \<open>Formatting\<close>

text \<open>\<^verbatim>\<open>%v\<close> of an \<^verbatim>\<open>int\<close>: decimal digits, with a minus sign below zero.\<close>

function nat_decimal :: "nat \<Rightarrow> string" where
  "nat_decimal n =
     (if n < 10 then [''0123456789'' ! n]
      else nat_decimal (n div 10) @ [''0123456789'' ! (n mod 10)])"
  by pat_completeness auto
termination
  by (relation "measure id") auto

definition Sprint_int :: "int \<Rightarrow> string" where
  "Sprint_int i = (if i < 0 then CHR ''-'' # nat_decimal (nat (- i)) else nat_decimal (nat i))"

text \<open>The path \<^verbatim>\<open>fmt.Sprintf("%s/%s", dir, name)\<close>.\<close>

definition path_in :: "string \<Rightarrow> string \<Rightarrow> string" where
  "path_in dir name = dir @ ''/'' @ name"

section \<open>Library calls\<close>

text \<open>
  \<^verbatim>\<open>yaml.Unmarshal(data, &roleMapping)\<close>. The yaml.v2 decoder finds no document in input of
  length zero: it leaves the destination as it was (here the named result, \<^verbatim>\<open>nil\<close>) and
  returns \<^verbatim>\<open>nil\<close>. Any other input is decoded by the world.
\<close>

definition yaml_Unmarshal :: "world \<Rightarrow> string \<Rightarrow> RoleMapping list \<times> error option" where
  "yaml_Unmarshal w data = (if data = [] then ([], None) else yaml_decode w data)"

text \<open>
  \<^verbatim>\<open>regexp.MatchString(pattern, s)\<close>, first result (the source drops the error). The
  patterns the program builds are \<^verbatim>\<open>fmt.Sprintf("%s.(yaml|yml)", exporter)\<close>. Where the
  exporter consists of ASCII characters that are not regexp metacharacters and the
  subject is ASCII, the pattern is the literal exporter, one character other than a
  newline, then \<^verbatim>\<open>yaml\<close> or \<^verbatim>\<open>yml\<close>; \<^verbatim>\<open>MatchString\<close> does not anchor, so it looks for the
  pattern at every position of the subject. All other cases are the world's.
\<close>

definition regexp_meta :: string where
  "regexp_meta = CHR 0x5C # ''.+*?()|[]{}^$''"

definition regexp_plain :: "string \<Rightarrow> bool" where
  "regexp_plain e = list_all (\<lambda>c. of_char c < (128::nat) \<and> c \<notin> set regexp_meta) e"

definition ascii :: "string \<Rightarrow> bool" where
  "ascii s = list_all (\<lambda>c. of_char c < (128::nat)) s"

definition match_here :: "string \<Rightarrow> string \<Rightarrow> bool" where
  "match_here e s =
     (take (length e) s = e \<and>
      (case drop (length e) s of
         [] \<Rightarrow> False
       | c # t \<Rightarrow> c \<noteq> CHR 0x0A \<and> (take 4 t = ''yaml'' \<or> take 3 t = ''yml'')))"

fun match_anywhere :: "string \<Rightarrow> string \<Rightarrow> bool" where
  "match_anywhere e [] = match_here e []"
| "match_anywhere e (c # s) = (match_here e (c # s) \<or> match_anywhere e s)"

definition regexp_MatchString :: "world \<Rightarrow> string \<Rightarrow> string \<Rightarrow> bool" where
  "regexp_MatchString w pattern s =
     (let e = take (length pattern - 11) pattern in
      if drop (length pattern - 11) pattern = ''.(yaml|yml)'' \<and> regexp_plain e \<and> ascii s
      then match_anywhere e s
      else regexp_other w pattern s)"

text \<open>
  \<^verbatim>\<open>ioutil.ReadDir(dir)\<close>: the names of the entries, sorted by filename, or an error; a
  directory that does not exist cannot be listed.
\<close>

definition ReadDir :: "world \<Rightarrow> string \<Rightarrow> fs \<Rightarrow> string list \<times> error option" where
  "ReadDir w dir s =
     (if \<not> dir_exists s then ([], Some (''open '' @ dir @ '': no such file or directory''))
      else case ReadDir_error w dir of
             Some e \<Rightarrow> ([], Some e)
           | None \<Rightarrow> (sort (map fst (entries s)), None))"

text \<open>\<^verbatim>\<open>os.Remove(fmt.Sprintf("%s/%s", dir, name))\<close>.\<close>

definition Remove :: "world \<Rightarrow> string \<Rightarrow> string \<Rightarrow> fs \<Rightarrow> fs \<times> error option" where
  "Remove w dir name s =
     (if dir_exists s \<and> map_of (entries s) name \<noteq> None
      then case Remove_error w (path_in dir name) of
             Some e \<Rightarrow> (s, Some e)
           | None \<Rightarrow> (s\<lparr>entries := AList.delete name (entries s)\<rparr>, None)
      else (s, Some (''remove '' @ path_in dir name @ '': no such file or directory'')))"

text \<open>\<^verbatim>\<open>os.MkdirAll(dir, 0755)\<close>; the source drops its error.\<close>

definition MkdirAll :: "world \<Rightarrow> string \<Rightarrow> fs \<Rightarrow> fs" where
  "MkdirAll w dir s =
     (if dir_exists s then s
      else if MkdirAll_ok w then s\<lparr>dir_exists := True, entries := []\<rparr>
      else s)"

text \<open>
  \<^verbatim>\<open>ioutil.WriteFile(fmt.Sprintf("%s/%s", dir, name), d, 0644)\<close>. A name with a path
  separator or a NUL byte is not a direct entry of the directory: what writing there
  does is the world's.
\<close>

definition direct_name :: "string \<Rightarrow> bool" where
  "direct_name n = (CHR ''/'' \<notin> set n \<and> CHR 0x00 \<notin> set n)"

definition WriteFile :: "world \<Rightarrow> string \<Rightarrow> string \<Rightarrow> string \<Rightarrow> fs \<Rightarrow> fs \<times> error option" where
  "WriteFile w dir name d s =
     (if \<not> direct_name name then WriteFile_nested w (path_in dir name) d s
      else if \<not> dir_exists s
      then (s, Some (''open '' @ path_in dir name @ '': no such file or directory''))
      else case WriteFile_fault w (path_in dir name) of
             None \<Rightarrow> (s\<lparr>entries := AList.update name d (entries s)\<rparr>, None)
           | Some (e, None) \<Rightarrow> (s, Some e)
           | Some (e, Some truncated) \<Rightarrow>
               (s\<lparr>entries := AList.update name truncated (entries s)\<rparr>, Some e))"

section \<open>The functions of main.go\<close>

text \<open>
  \<^verbatim>\<open>loadRoleMapping\<close> (lines 182 to 192). The error of \<^verbatim>\<open>ioutil.ReadFile\<close> is assigned to
  \<^verbatim>\<open>err\<close> and overwritten by the next statement.
\<close>

definition loadRoleMapping :: "world \<Rightarrow> string \<Rightarrow> RoleMapping list \<times> error option" where
  "loadRoleMapping w mappingFile =
     (let filename = filepath_Abs w mappingFile;
          (yamlFile, err) = ReadFile w filename
      in yaml_Unmarshal w yamlFile)"

text \<open>
  \<^verbatim>\<open>cleanupTargetsDir\<close> (lines 195 to 218). \<open>found_any\<close> is the inner loop over the roles,
  \<open>cleanup_loop\<close> the loop labelled \<^verbatim>\<open>OUTER\<close> over the listed files.
\<close>

fun found_any :: "world \<Rightarrow> RoleMapping list \<Rightarrow> string \<Rightarrow> bool" where
  "found_any w [] name = False"
| "found_any w (r # roles) name =
     (if regexp_MatchString w (Exporter r @ ''.(yaml|yml)'') name then True
      else found_any w roles name)"

fun cleanup_loop ::
  "world \<Rightarrow> string \<Rightarrow> RoleMapping list \<Rightarrow> string list \<Rightarrow> fs \<Rightarrow> printed list \<times> fs \<times> error option" where
  "cleanup_loop w dir roles [] s = ([], s, None)"
| "cleanup_loop w dir roles (name # files) s =
     (if found_any w roles name then cleanup_loop w dir roles files s
      else case Remove w dir name s of
             (s', Some e) \<Rightarrow> ([Println e], s', Some e)
           | (s', None) \<Rightarrow> cleanup_loop w dir roles files s')"

definition cleanupTargetsDir ::
  "world \<Rightarrow> string \<Rightarrow> RoleMapping list \<Rightarrow> fs \<Rightarrow> printed list \<times> fs \<times> error option" where
  "cleanupTargetsDir w dir roles s =
     (case ReadDir w dir s of
        (files, Some e) \<Rightarrow> ([Println e], s, Some e)
      | (files, None) \<Rightarrow> cleanup_loop w dir roles files s)"

text \<open>
  \<^verbatim>\<open>getNodes\<close> (lines 220 to 248). \<open>query_string\<close> is the \<^verbatim>\<open>Sprintf\<close> of line 225,
  \<open>query_body\<close> the one of line 227.
\<close>

definition query_string :: "string \<Rightarrow> string \<Rightarrow> string \<Rightarrow> string" where
  "query_string query filter' role =
     query @ '' {'' @ filter' @ '' and facts { name='' @ [CHR 0x27] @ ''role'' @ [CHR 0x27]
       @ '' and value='' @ [CHR 0x27] @ role @ [CHR 0x27] @ '' } }''"

definition query_body :: "string \<Rightarrow> string" where
  "query_body q =
     ''{'' @ [CHR 0x22] @ ''query'' @ [CHR 0x22] @ '':'' @ [CHR 0x22] @ q @ [CHR 0x22] @ ''}''"

definition getNodes ::
  "world \<Rightarrow> string \<Rightarrow> string \<Rightarrow> string \<Rightarrow> string \<Rightarrow> Node list \<times> error option" where
  "getNodes w puppetdb query filter' role =
     (let q = query_string query filter' role;
          form = query_body q;
          puppetdbURL = puppetdb @ ''/pdb/query/v4''
      in case http_post w puppetdbURL form of
           (body, Some e) \<Rightarrow> ([], Some e)
         | (body, None) \<Rightarrow> json_decode w body)"

text \<open>
  \<^verbatim>\<open>writeNodes\<close> (lines 250 to 279). \<open>node_targets\<close> is the body of the loop over the
  nodes, \<open>all_targets\<close> the loop with \<^verbatim>\<open>allTargets\<close> as accumulator.
\<close>

definition node_targets :: "int \<Rightarrow> string \<Rightarrow> string \<Rightarrow> string \<Rightarrow> Node \<Rightarrow> Targets" where
  "node_targets port path scheme job node =
     \<lparr>Targets = [] @ [Ipaddress node @ '':'' @ Sprint_int port],
      Labels = [''job'' \<mapsto> job, ''certname'' \<mapsto> Certname node,
                ''metrics_path'' \<mapsto> path, ''scheme'' \<mapsto> scheme]\<rparr>"

fun all_targets ::
  "int \<Rightarrow> string \<Rightarrow> string \<Rightarrow> string \<Rightarrow> Node list \<Rightarrow> Targets list \<Rightarrow> Targets list" where
  "all_targets port path scheme job [] allTargets = allTargets"
| "all_targets port path scheme job (node # nodes) allTargets =
     all_targets port path scheme job nodes (allTargets @ [node_targets port path scheme job node])"

definition writeNodes ::
  "world \<Rightarrow> Node list \<Rightarrow> int \<Rightarrow> string \<Rightarrow> string \<Rightarrow> string \<Rightarrow> string \<Rightarrow> fs \<Rightarrow> fs \<times> error option" where
  "writeNodes w nodes port path scheme job dir s =
     (let allTargets = all_targets port path scheme job nodes [] in
      case yaml_Marshal w allTargets of
        (d, Some e) \<Rightarrow> (s, Some e)
      | (d, None) \<Rightarrow> WriteFile w dir (job @ ''.yml'') d (MkdirAll w dir s))"

section \<open>The poll loop\<close>

text \<open>
  The loop over the roles of one exporter (lines 129 to 138): the nodes accumulated and
  what was printed. A failed query prints its error and leaves the loop.
\<close>

fun roles_loop :: "world \<Rightarrow> Config \<Rightarrow> string list \<Rightarrow> Node list \<Rightarrow> printed list \<times> Node list" where
  "roles_loop w cfg [] nodes = ([], nodes)"
| "roles_loop w cfg (role # roles) nodes =
     (case getNodes w (PuppetDBURL cfg) (Query cfg) (Filter cfg) role of
        (tmpNodes, Some e) \<Rightarrow> ([Println e], nodes)
      | (tmpNodes, None) \<Rightarrow> roles_loop w cfg roles (nodes @ tmpNodes))"

text \<open>
  The loop over the exporters (lines 126 to 146). A failed write prints its error and
  leaves the loop.
\<close>

fun exporters_loop :: "world \<Rightarrow> Config \<Rightarrow> RoleMapping list \<Rightarrow> fs \<Rightarrow> printed list \<times> fs" where
  "exporters_loop w cfg [] s = ([], s)"
| "exporters_loop w cfg (e # es) s =
     (let (out1, nodes) = roles_loop w cfg (Roles e) [] in
      case writeNodes w nodes (Port e) (Path e) (Scheme e) (Exporter e) (TargetsDir cfg) s of
        (s', Some x) \<Rightarrow> (out1 @ [Println x], s')
      | (s', None) \<Rightarrow>
          (let (out2, s'') = exporters_loop w cfg es s' in (out1 @ out2, s'')))"

text \<open>One pass of the body of the loop (lines 111 to 155).\<close>

definition cycle :: "world \<Rightarrow> Config \<Rightarrow> fs \<Rightarrow> printed list \<times> fs \<times> status" where
  "cycle w cfg s =
     (case loadRoleMapping w (RoleMappingFile cfg) of
        (roleMapping, Some e) \<Rightarrow> ([Println e], s, Exit 1)
      | (roleMapping, None) \<Rightarrow>
          (case cleanupTargetsDir w (TargetsDir cfg) roleMapping s of
             (out1, s1, Some e) \<Rightarrow> (out1 @ [Println e], s1, Exit 1)
           | (out1, s1, None) \<Rightarrow>
               (let (out2, s2) = exporters_loop w cfg roleMapping s1 in
                case ParseDuration w (Sleep cfg) of
                  (sleep, Some e) \<Rightarrow> (out1 @ out2 @ [Println e], s2, Return)
                | (sleep, None) \<Rightarrow> (out1 @ out2 @ [Printf_Sleeping sleep], s2, Slept sleep))))"

text \<open>
  The loop itself runs until the process ends. \<open>main_loop\<close> runs it against a list of
  worlds, one for each cycle in turn, and stops when the process has ended or the
  list is used up; the result is what was printed, the directory, and the exit status
  of the process if it has ended.
\<close>

fun main_loop :: "world list \<Rightarrow> Config \<Rightarrow> fs \<Rightarrow> printed list \<times> fs \<times> nat option" where
  "main_loop [] cfg s = ([], s, None)"
| "main_loop (w # ws) cfg s =
     (case cycle w cfg s of
        (out, s', Slept d) \<Rightarrow>
          (let (out', s'', code) = main_loop ws cfg s' in (out @ out', s'', code))
      | (out, s', st) \<Rightarrow> (out, s', exit_status st))"

section \<open>Example worlds\<close>

text \<open>
  A configuration, and a world in which every call succeeds: the role-mapping file
  decodes to the given mapping, the role \<^verbatim>\<open>web\<close> has the one node \<^verbatim>\<open>n1\<close> and every other
  role has none (the inventory answers a query with the query itself, which the
  decoder recognises), and a target file holds one line for each target.
\<close>

definition example_cfg :: Config where
  "example_cfg =
     \<lparr>PuppetDBURL = ''http://puppetdb:8080'', Query = ''facts[certname, value]'',
      Filter = ''nodes { deactivated is null }'', RoleMappingFile = ''role-mapping.yaml'',
      TargetsDir = ''/targets'', Sleep = ''60s''\<rparr>"

definition example_query :: "string \<Rightarrow> string" where
  "example_query role = query_body (query_string (Query example_cfg) (Filter example_cfg) role)"

definition example_Marshal :: "Targets list \<Rightarrow> string" where
  "example_Marshal ts = concat (map (\<lambda>t. concat (Targets t) @ [CHR 0x0A]) ts)"

definition example_world :: "RoleMapping list \<Rightarrow> world" where
  "example_world m =
     \<lparr>filepath_Abs = (\<lambda>p. ''/app/'' @ p),
      ReadFile = (\<lambda>p. (''- exporter'', None)),
      yaml_decode = (\<lambda>data. (m, None)),
      ReadDir_error = (\<lambda>dir. None),
      Remove_error = (\<lambda>p. None),
      regexp_other = (\<lambda>pattern s. False),
      http_post = (\<lambda>url form. (form, None)),
      json_decode = (\<lambda>body. if body = example_query ''web''
                             then ([\<lparr>Certname = ''n1'', Ipaddress = ''10.0.0.1''\<rparr>], None)
                             else ([], None)),
      yaml_Marshal = (\<lambda>ts. (example_Marshal ts, None)),
      MkdirAll_ok = True,
      WriteFile_fault = (\<lambda>p. None),
      WriteFile_nested = (\<lambda>p d s. (s, Some (''open '' @ p @ '': no such file or directory''))),
      ParseDuration = (\<lambda>d. if d = ''60s'' then (60000000000, None)
                             else (0, Some (''time: invalid duration '' @ d)))\<rparr>"

definition collectd_exporter :: RoleMapping where
  "collectd_exporter = \<lparr>Exporter = ''collectd'', Port = 9103, Path = ''/metrics'', Scheme = ''http'',
                Roles = [''web'']\<rparr>"

definition node_exporter :: RoleMapping where
  "node_exporter = \<lparr>Exporter = ''node'', Port = 9100, Path = ''/metrics'', Scheme = ''http'',
             Roles = [''web'', ''db'']\<rparr>"

definition empty_dir :: fs where
  "empty_dir = \<lparr>dir_exists = True, entries = []\<rparr>"

definition no_dir :: fs where
  "no_dir = \<lparr>dir_exists = False, entries = []\<rparr>"

definition populated_dir :: fs where
  "populated_dir =
     \<lparr>dir_exists = True,
      entries = [(''collectd.yml'', ''10.0.0.1:9103'' @ [CHR 0x0A]),
                 (''node.yml'', ''10.0.0.1:9100'' @ [CHR 0x0A])]\<rparr>"

definition stale_dir :: fs where
  "stale_dir = \<lparr>dir_exists = True, entries = [(''collectd.yaml'', ''10.0.0.9:9103'' @ [CHR 0x0A])]\<rparr>"

text \<open>
  Variations of the example world: the role-mapping file cannot be opened; the target
  file of \<^verbatim>\<open>collectd\<close> cannot be written; the inventory query for the role \<^verbatim>\<open>db\<close> fails.
\<close>

definition unreadable_world :: "RoleMapping list \<Rightarrow> world" where
  "unreadable_world m =
     (example_world m)
       \<lparr>ReadFile := (\<lambda>p. ([], Some (''open '' @ p @ '': no such file or directory'')))\<rparr>"

definition write_fault_world :: "RoleMapping list \<Rightarrow> world" where
  "write_fault_world m =
     (example_world m)
       \<lparr>WriteFile_fault :=
          (\<lambda>p. if p = ''/targets/collectd.yml''
                then Some (''open /targets/collectd.yml: permission denied'', None)
                else None)\<rparr>"

definition query_fault_world :: "RoleMapping list \<Rightarrow> world" where
  "query_fault_world m =
     (example_world m)
       \<lparr>http_post :=
          (\<lambda>url form. if form = example_query ''db''
                       then ([], Some ''Post /pdb/query/v4: connection refused'')
                       else (form, None))\<rparr>"

section \<open>Notions used in the properties\<close>

text \<open>
  A cycle printed no error: nothing but the \<^verbatim>\<open>Sleeping for\<close> line.
\<close>

definition no_error_printed :: "printed list \<Rightarrow> bool" where
  "no_error_printed out =
     list_all (\<lambda>p. case p of Println e \<Rightarrow> False | Printf_Sleeping d \<Rightarrow> True) out"

text \<open>
  The bytes \<^verbatim>\<open>writeNodes\<close> hands to \<^verbatim>\<open>ioutil.WriteFile\<close> for an exporter when every query
  for its roles succeeds: \<^verbatim>\<open>d\<close> of line 267 for \<^verbatim>\<open>nodes\<close> of line 137, the nodes of all its
  roles in the order of the roles.
\<close>

definition exporter_file :: "world \<Rightarrow> Config \<Rightarrow> RoleMapping \<Rightarrow> string" where
  "exporter_file w cfg r =
     fst (yaml_Marshal w
            (map (node_targets (Port r) (Path r) (Scheme r) (Exporter r))
               (concat (map (\<lambda>role. fst (getNodes w (PuppetDBURL cfg) (Query cfg) (Filter cfg) role))
                          (Roles r)))))"

section \<open>Auxiliary facts\<close>

lemma all_targets_map:
  "all_targets port path scheme job nodes acc = acc @ map (node_targets port path scheme job) nodes"
  by (induction nodes arbitrary: acc) simp_all

lemma Sprint_int_9103: "Sprint_int 9103 = ''9103''"
  by (simp add: Sprint_int_def nat_decimal.simps)

lemma cleanup_loop_no_roles:
  "dir_exists s \<Longrightarrow> distinct files \<Longrightarrow> set files \<subseteq> fst ` set (entries s) \<Longrightarrow>
   list_all (\<lambda>n. Remove_error w (path_in dir n) = None) files \<Longrightarrow>
   cleanup_loop w dir [] files s =
     ([], s\<lparr>entries := filter (\<lambda>(n, d). n \<notin> set files) (entries s)\<rparr>, None)"
proof (induction files arbitrary: s)
  case Nil
  then show ?case by simp
next
  case (Cons name files)
  let ?s' = "s\<lparr>entries := AList.delete name (entries s)\<rparr>"
  from Cons.prems have present: "map_of (entries s) name \<noteq> None"
    by (simp add: map_of_eq_None_iff)
  with Cons.prems have rm: "Remove w dir name s = (?s', None)"
    by (simp add: Remove_def)
  have sub: "set files \<subseteq> fst ` set (entries ?s')"
  proof
    fix x assume x: "x \<in> set files"
    with Cons.prems have "x \<noteq> name" and "x \<in> fst ` set (entries s)" by auto
    then show "x \<in> fst ` set (entries ?s')"
      by (force simp add: AList.delete_eq)
  qed
  from Cons.prems have "cleanup_loop w dir [] files ?s' =
     ([], ?s'\<lparr>entries := filter (\<lambda>(n, d). n \<notin> set files) (entries ?s')\<rparr>, None)"
    using sub by (intro Cons.IH) simp_all
  moreover have "filter (\<lambda>(n, d). n \<notin> set files) (AList.delete name (entries s)) =
                 filter (\<lambda>(n, d). n \<notin> set (name # files)) (entries s)"
    by (auto simp add: AList.delete_eq intro: filter_cong)
  ultimately show ?case using rm by simp
qed

lemma cleanupTargetsDir_no_roles:
  assumes "dir_exists s" and "ReadDir_error w dir = None" and "distinct (map fst (entries s))"
    and "list_all (\<lambda>n. Remove_error w (path_in dir n) = None) (map fst (entries s))"
  shows "cleanupTargetsDir w dir [] s = ([], s\<lparr>entries := []\<rparr>, None)"
proof -
  let ?files = "sort (map fst (entries s))"
  have "list_all (\<lambda>n. Remove_error w (path_in dir n) = None) ?files"
    using assms(4) by (simp add: list_all_iff)
  with assms have "cleanup_loop w dir [] ?files s =
     ([], s\<lparr>entries := filter (\<lambda>(n, d). n \<notin> set ?files) (entries s)\<rparr>, None)"
    by (intro cleanup_loop_no_roles) simp_all
  moreover have "filter (\<lambda>(n, d). n \<notin> set ?files) (entries s) = []"
    by (auto simp add: filter_empty_conv image_iff)
  ultimately show ?thesis using assms by (simp add: cleanupTargetsDir_def ReadDir_def)
qed

lemma direct_name_yml: "direct_name (job @ ''.yml'') = direct_name job"
  by (auto simp add: direct_name_def)

lemma writeNodes_ok:
  "dir_exists s \<Longrightarrow> direct_name job \<Longrightarrow>
   yaml_Marshal w (map (node_targets port path scheme job) nodes) = (d, None) \<Longrightarrow>
   WriteFile_fault w (path_in dir (job @ ''.yml'')) = None \<Longrightarrow>
   writeNodes w nodes port path scheme job dir s =
     (s\<lparr>entries := AList.update (job @ ''.yml'') d (entries s)\<rparr>, None)"
  by (simp add: writeNodes_def all_targets_map WriteFile_def MkdirAll_def direct_name_yml)

lemma roles_loop_failure:
  "list_all (\<lambda>r. snd (getNodes w (PuppetDBURL cfg) (Query cfg) (Filter cfg) r) = None) pre \<Longrightarrow>
   snd (getNodes w (PuppetDBURL cfg) (Query cfg) (Filter cfg) r) = Some x \<Longrightarrow>
   roles_loop w cfg (pre @ r # post) nodes =
     ([Println x],
      nodes @ concat (map (\<lambda>r. fst (getNodes w (PuppetDBURL cfg) (Query cfg) (Filter cfg) r)) pre))"
proof (induction pre arbitrary: nodes)
  case Nil
  then show ?case
    by (cases "getNodes w (PuppetDBURL cfg) (Query cfg) (Filter cfg) r") simp
next
  case (Cons a pre)
  then show ?case
    by (cases "getNodes w (PuppetDBURL cfg) (Query cfg) (Filter cfg) a") simp
qed

lemma exporters_loop_break:
  assumes "snd (writeNodes w (snd (roles_loop w cfg (Roles e) [])) (Port e) (Path e) (Scheme e)
                  (Exporter e) (TargetsDir cfg) (snd (exporters_loop w cfg pre s))) = Some x"
  shows "exporters_loop w cfg (pre @ e # post) s = exporters_loop w cfg (pre @ [e]) s"
  using assms
proof (induction pre arbitrary: s)
  case Nil
  then show ?case by (simp add: case_prod_unfold Let_def split: option.splits)
next
  case (Cons a pre)
  show ?case
  proof (cases "snd (writeNodes w (snd (roles_loop w cfg (Roles a) [])) (Port a) (Path a) (Scheme a)
                  (Exporter a) (TargetsDir cfg) s)")
    case None
    with Cons.prems have "exporters_loop w cfg (pre @ e # post)
        (fst (writeNodes w (snd (roles_loop w cfg (Roles a) [])) (Port a) (Path a) (Scheme a)
                  (Exporter a) (TargetsDir cfg) s)) =
      exporters_loop w cfg (pre @ [e])
        (fst (writeNodes w (snd (roles_loop w cfg (Roles a) [])) (Port a) (Path a) (Scheme a)
                  (Exporter a) (TargetsDir cfg) s))"
      by (intro Cons.IH) (simp add: case_prod_unfold Let_def)
    with None show ?thesis by (simp add: case_prod_unfold Let_def)
  next
    case (Some y)
    then show ?thesis by (simp add: case_prod_unfold Let_def)
  qed
qed

lemma map_of_filter_name:
  "map_of (filter (\<lambda>(n, d). P n) xs) k = (if P k then map_of xs k else None)"
  by (induction xs) auto

lemma cleanup_loop_done:
  "cleanup_loop w dir roles files s = (out, s', None) \<Longrightarrow>
   out = [] \<and> dir_exists s' = dir_exists s \<and>
   entries s' = filter (\<lambda>(n, d). found_any w roles n \<or> n \<notin> set files) (entries s)"
proof (induction files arbitrary: s)
  case Nil
  then show ?case by auto
next
  case (Cons name files)
  show ?case
  proof (cases "found_any w roles name")
    case True
    with Cons.prems have "cleanup_loop w dir roles files s = (out, s', None)" by simp
    from Cons.IH [OF this] have "out = []" and "dir_exists s' = dir_exists s"
      and e: "entries s' = filter (\<lambda>(n, d). found_any w roles n \<or> n \<notin> set files) (entries s)"
      by simp_all
    moreover from True have "filter (\<lambda>(n, d). found_any w roles n \<or> n \<notin> set files) (entries s) =
        filter (\<lambda>(n, d). found_any w roles n \<or> n \<notin> set (name # files)) (entries s)"
      by (intro filter_cong) auto
    ultimately show ?thesis by simp
  next
    case False
    let ?s1 = "s\<lparr>entries := AList.delete name (entries s)\<rparr>"
    from False Cons.prems have rm: "Remove w dir name s = (?s1, None)"
      and rest: "cleanup_loop w dir roles files ?s1 = (out, s', None)"
      by (auto simp add: Remove_def split: if_splits option.splits prod.splits)
    from Cons.IH [OF rest] have "out = []" and "dir_exists s' = dir_exists s"
      and e: "entries s' =
        filter (\<lambda>(n, d). found_any w roles n \<or> n \<notin> set files) (AList.delete name (entries s))"
      by simp_all
    moreover from False have
      "filter (\<lambda>(n, d). found_any w roles n \<or> n \<notin> set files) (AList.delete name (entries s)) =
       filter (\<lambda>(n, d). found_any w roles n \<or> n \<notin> set (name # files)) (entries s)"
      by (auto simp add: AList.delete_eq intro: filter_cong)
    ultimately show ?thesis by simp
  qed
qed

lemma cleanupTargetsDir_done:
  assumes "cleanupTargetsDir w dir roles s = (out, s', None)"
  shows "out = [] \<and> dir_exists s \<and> dir_exists s' \<and>
         entries s' = filter (\<lambda>(n, d). found_any w roles n) (entries s)"
proof -
  from assms have ex: "dir_exists s" and l: "ReadDir w dir s = (sort (map fst (entries s)), None)"
    by (auto simp add: cleanupTargetsDir_def ReadDir_def split: if_splits option.splits)
  with assms have "cleanup_loop w dir roles (sort (map fst (entries s))) s = (out, s', None)"
    by (simp add: cleanupTargetsDir_def)
  from cleanup_loop_done [OF this] have "out = []" and "dir_exists s' = dir_exists s"
    and e: "entries s' =
      filter (\<lambda>(n, d). found_any w roles n \<or> n \<notin> set (sort (map fst (entries s)))) (entries s)"
    by simp_all
  moreover have
    "filter (\<lambda>(n, d). found_any w roles n \<or> n \<notin> set (sort (map fst (entries s)))) (entries s) =
     filter (\<lambda>(n, d). found_any w roles n) (entries s)"
    by (intro filter_cong) (auto simp add: image_iff)
  ultimately show ?thesis using ex by simp
qed

lemma writeNodes_direct:
  assumes "direct_name job"
  shows "(\<exists>e. \<forall>t. dir_exists t \<longrightarrow> writeNodes w nodes port path scheme job dir t = (t, Some e)) \<or>
         (\<exists>d err. \<forall>t. dir_exists t \<longrightarrow>
            writeNodes w nodes port path scheme job dir t =
              (t\<lparr>entries := AList.update (job @ ''.yml'') d (entries t)\<rparr>, err))"
proof (cases "yaml_Marshal w (all_targets port path scheme job nodes [])")
  case (Pair d merr)
  show ?thesis
  proof (cases merr)
    case (Some e)
    with Pair have "\<forall>t. dir_exists t \<longrightarrow> writeNodes w nodes port path scheme job dir t = (t, Some e)"
      by (simp add: writeNodes_def)
    then show ?thesis by blast
  next
    case None
    show ?thesis
    proof (cases "WriteFile_fault w (path_in dir (job @ ''.yml''))")
      case None
      with Pair \<open>merr = None\<close> assms
      have "\<forall>t. dir_exists t \<longrightarrow> writeNodes w nodes port path scheme job dir t =
              (t\<lparr>entries := AList.update (job @ ''.yml'') d (entries t)\<rparr>, None)"
        by (simp add: writeNodes_def WriteFile_def MkdirAll_def direct_name_yml)
      then show ?thesis by blast
    next
      case (Some f)
      obtain e tr where f: "f = (e, tr)" by (cases f)
      show ?thesis
      proof (cases tr)
        case None
        with Pair \<open>merr = None\<close> assms Some f
        have "\<forall>t. dir_exists t \<longrightarrow> writeNodes w nodes port path scheme job dir t = (t, Some e)"
          by (simp add: writeNodes_def WriteFile_def MkdirAll_def direct_name_yml)
        then show ?thesis by blast
      next
        case (Some truncated)
        with Pair \<open>merr = None\<close> assms \<open>WriteFile_fault w (path_in dir (job @ ''.yml'')) = Some f\<close> f
        have "\<forall>t. dir_exists t \<longrightarrow> writeNodes w nodes port path scheme job dir t =
              (t\<lparr>entries := AList.update (job @ ''.yml'') truncated (entries t)\<rparr>, Some e)"
          by (simp add: writeNodes_def WriteFile_def MkdirAll_def direct_name_yml)
        then show ?thesis by blast
      qed
    qed
  qed
qed

lemma exporters_loop_map:
  "dir_exists s \<Longrightarrow> list_all (\<lambda>r. direct_name (Exporter r)) m \<Longrightarrow>
   dir_exists (snd (exporters_loop w cfg m s)) \<and>
   map_of (entries (snd (exporters_loop w cfg m s))) =
     map_of (entries s) ++ map_of (entries (snd (exporters_loop w cfg m (s\<lparr>entries := []\<rparr>))))"
proof (induction m arbitrary: s)
  case Nil
  then show ?case by simp
next
  case (Cons e es)
  let ?nodes = "snd (roles_loop w cfg (Roles e) [])"
  let ?wr = "\<lambda>t. writeNodes w ?nodes (Port e) (Path e) (Scheme e) (Exporter e) (TargetsDir cfg) t"
  let ?s0 = "s\<lparr>entries := []\<rparr>"
  from Cons.prems have d: "direct_name (Exporter e)" and ds: "list_all (\<lambda>r. direct_name (Exporter r)) es"
    by simp_all
  from Cons.prems have ex: "dir_exists s" and ex0: "dir_exists ?s0" by simp_all
  from writeNodes_direct [OF d, of w ?nodes "Port e" "Path e" "Scheme e" "TargetsDir cfg"]
  show ?case
  proof (elim disjE exE)
    fix x assume a: "\<forall>t. dir_exists t \<longrightarrow> ?wr t = (t, Some x)"
    with ex ex0 have "?wr s = (s, Some x)" and "?wr ?s0 = (?s0, Some x)" by blast+
    with ex show ?thesis by (simp add: case_prod_unfold Let_def)
  next
    fix c err
    assume a: "\<forall>t. dir_exists t \<longrightarrow>
       ?wr t = (t\<lparr>entries := AList.update (Exporter e @ ''.yml'') c (entries t)\<rparr>, err)"
    let ?sa = "s\<lparr>entries := AList.update (Exporter e @ ''.yml'') c (entries s)\<rparr>"
    let ?sb = "s\<lparr>entries := [(Exporter e @ ''.yml'', c)]\<rparr>"
    from a ex ex0 have ws: "?wr s = (?sa, err)" and w0: "?wr ?s0 = (?sb, err)" by auto
    show ?thesis
    proof (cases err)
      case (Some y)
      with ws w0 ex show ?thesis
        by (simp add: case_prod_unfold Let_def AList.update_conv' fun_eq_iff map_add_def)
    next
      case None
      have ea: "dir_exists ?sa" and eb: "dir_exists ?sb" using ex by simp_all
      have z: "?sa\<lparr>entries := []\<rparr> = ?s0" "?sb\<lparr>entries := []\<rparr> = ?s0" by simp_all
      from Cons.IH [OF ea ds]
      have A: "dir_exists (snd (exporters_loop w cfg es ?sa))"
        and B: "map_of (entries (snd (exporters_loop w cfg es ?sa))) =
                map_of (entries ?sa) ++ map_of (entries (snd (exporters_loop w cfg es ?s0)))"
        by (simp_all only: z)
      from Cons.IH [OF eb ds]
      have C: "map_of (entries (snd (exporters_loop w cfg es ?sb))) =
                map_of (entries ?sb) ++ map_of (entries (snd (exporters_loop w cfg es ?s0)))"
        by (simp only: z)
      have l: "snd (exporters_loop w cfg (e # es) s) = snd (exporters_loop w cfg es ?sa)"
        using ws None by (simp add: case_prod_unfold Let_def)
      have r: "snd (exporters_loop w cfg (e # es) ?s0) = snd (exporters_loop w cfg es ?sb)"
        using w0 None by (simp add: case_prod_unfold Let_def)
      have "map_of (entries ?sa) ++ map_of (entries (snd (exporters_loop w cfg es ?s0))) =
            map_of (entries s) ++ (map_of (entries ?sb) ++ map_of (entries (snd (exporters_loop w cfg es ?s0))))"
        by (simp add: AList.update_conv' fun_eq_iff map_add_def split: option.splits)
      with A B C l r show ?thesis by simp
    qed
  qed
qed

lemma cycle_Slept:
  assumes "cycle w cfg s = (out, s', Slept d)"
  shows "snd (loadRoleMapping w (RoleMappingFile cfg)) = None \<and>
         (\<exists>s1. cleanupTargetsDir w (TargetsDir cfg) (fst (loadRoleMapping w (RoleMappingFile cfg))) s
                 = ([], s1, None) \<and>
               s' = snd (exporters_loop w cfg (fst (loadRoleMapping w (RoleMappingFile cfg))) s1))"
proof -
  obtain m lerr where l: "loadRoleMapping w (RoleMappingFile cfg) = (m, lerr)"
    by (cases "loadRoleMapping w (RoleMappingFile cfg)")
  with assms have ln: "lerr = None" by (cases lerr) (simp_all add: cycle_def)
  obtain out1 s1 cerr where c: "cleanupTargetsDir w (TargetsDir cfg) m s = (out1, s1, cerr)"
    by (cases "cleanupTargetsDir w (TargetsDir cfg) m s")
  with assms l ln have cn: "cerr = None" by (cases cerr) (simp_all add: cycle_def)
  from cleanupTargetsDir_done [of w "TargetsDir cfg" m s out1 s1] c cn have o: "out1 = []" by simp
  from assms l ln c cn have "s' = snd (exporters_loop w cfg m s1)"
    by (auto simp add: cycle_def case_prod_unfold Let_def split: option.splits)
  with l ln c cn o show ?thesis by simp
qed

lemma no_error_printed_simps [simp]:
  "no_error_printed []"
  "no_error_printed (a @ b) = (no_error_printed a \<and> no_error_printed b)"
  "no_error_printed (Println e # a) = False"
  "no_error_printed (Printf_Sleeping d # a) = no_error_printed a"
  by (simp_all add: no_error_printed_def)

lemma roles_loop_quiet:
  "roles_loop w cfg rs nodes = (out, ns) \<Longrightarrow> no_error_printed out \<Longrightarrow>
   ns = nodes @ concat (map (\<lambda>role. fst (getNodes w (PuppetDBURL cfg) (Query cfg) (Filter cfg) role)) rs)"
proof (induction rs arbitrary: nodes)
  case Nil
  then show ?case by simp
next
  case (Cons a rs)
  obtain tmp err where g: "getNodes w (PuppetDBURL cfg) (Query cfg) (Filter cfg) a = (tmp, err)"
    by (cases "getNodes w (PuppetDBURL cfg) (Query cfg) (Filter cfg) a")
  show ?case
  proof (cases err)
    case None
    with g Cons.prems have "roles_loop w cfg rs (nodes @ tmp) = (out, ns)"
      by (simp add: case_prod_unfold)
    from Cons.IH [OF this Cons.prems(2)] g show ?thesis by simp
  next
    case (Some e)
    with g Cons.prems show ?thesis by auto
  qed
qed

lemma writeNodes_done:
  assumes "writeNodes w nodes port path scheme job dir s = (s', None)"
    and "dir_exists s" and "direct_name job"
  shows "s' = s\<lparr>entries := AList.update (job @ ''.yml'')
                 (fst (yaml_Marshal w (map (node_targets port path scheme job) nodes))) (entries s)\<rparr>"
  using assms
  by (auto simp add: writeNodes_def all_targets_map WriteFile_def MkdirAll_def direct_name_yml
           split: prod.splits option.splits if_splits)

lemma exporters_loop_quiet:
  "exporters_loop w cfg m s = (out, s') \<Longrightarrow> no_error_printed out \<Longrightarrow> dir_exists s \<Longrightarrow>
   list_all (\<lambda>r. direct_name (Exporter r)) m \<Longrightarrow>
   dir_exists s' \<and>
   fst ` set (entries s') = fst ` set (entries s) \<union> (\<lambda>r. Exporter r @ ''.yml'') ` set m \<and>
   (\<forall>n. n \<notin> (\<lambda>r. Exporter r @ ''.yml'') ` set m \<longrightarrow> map_of (entries s') n = map_of (entries s) n) \<and>
   (distinct (map Exporter m) \<longrightarrow>
      (\<forall>r\<in>set m. map_of (entries s') (Exporter r @ ''.yml'') = Some (exporter_file w cfg r)))"
proof (induction m arbitrary: s out)
  case Nil
  then show ?case by simp
next
  case (Cons e es)
  obtain o1 nodes where rl: "roles_loop w cfg (Roles e) [] = (o1, nodes)"
    by (cases "roles_loop w cfg (Roles e) []")
  obtain sa err where wr:
    "writeNodes w nodes (Port e) (Path e) (Scheme e) (Exporter e) (TargetsDir cfg) s = (sa, err)"
    by (cases "writeNodes w nodes (Port e) (Path e) (Scheme e) (Exporter e) (TargetsDir cfg) s")
  obtain o2 sb where rest: "exporters_loop w cfg es sa = (o2, sb)"
    by (cases "exporters_loop w cfg es sa")
  from Cons.prems(1,2) rl wr have en: "err = None"
    by (cases err) auto
  with Cons.prems(1,2) rl wr rest have o: "out = o1 @ o2" and sb: "sb = s'"
    by simp_all
  with Cons.prems(2) have q1: "no_error_printed o1" and q2: "no_error_printed o2" by simp_all
  from roles_loop_quiet [OF rl q1]
  have nodes: "nodes = concat (map (\<lambda>role. fst (getNodes w (PuppetDBURL cfg) (Query cfg) (Filter cfg) role))
                                 (Roles e))" by simp
  from Cons.prems(4) have de: "direct_name (Exporter e)"
    and des: "list_all (\<lambda>r. direct_name (Exporter r)) es" by simp_all
  from writeNodes_done [OF wr [unfolded en] Cons.prems(3) de] nodes
  have sa: "sa = s\<lparr>entries := AList.update (Exporter e @ ''.yml'') (exporter_file w cfg e) (entries s)\<rparr>"
    by (simp add: exporter_file_def)
  then have dsa: "dir_exists sa" using Cons.prems(3) by simp
  from Cons.IH [OF rest [unfolded sb] q2 dsa des]
  have ih1: "dir_exists s'"
    and ih2: "fst ` set (entries s') = fst ` set (entries sa) \<union> (\<lambda>r. Exporter r @ ''.yml'') ` set es"
    and ih3: "\<And>n. n \<notin> (\<lambda>r. Exporter r @ ''.yml'') ` set es \<Longrightarrow>
                  map_of (entries s') n = map_of (entries sa) n"
    and ih4: "distinct (map Exporter es) \<Longrightarrow>
                 (\<forall>r\<in>set es. map_of (entries s') (Exporter r @ ''.yml'') = Some (exporter_file w cfg r))"
    by blast+
  have keys: "fst ` set (entries s') =
      fst ` set (entries s) \<union> (\<lambda>r. Exporter r @ ''.yml'') ` set (e # es)"
    using ih2 sa by (auto simp add: AList.dom_update)
  have frame: "map_of (entries s') n = map_of (entries s) n"
    if "n \<notin> (\<lambda>r. Exporter r @ ''.yml'') ` set (e # es)" for n
  proof -
    from that have "n \<notin> (\<lambda>r. Exporter r @ ''.yml'') ` set es" and "n \<noteq> Exporter e @ ''.yml''"
      by auto
    with ih3 [of n] sa show ?thesis by (simp add: AList.update_conv')
  qed
  have content: "\<forall>r\<in>set (e # es). map_of (entries s') (Exporter r @ ''.yml'') = Some (exporter_file w cfg r)"
    if dist: "distinct (map Exporter (e # es))"
  proof -
    from dist have "Exporter e \<notin> Exporter ` set es" and d': "distinct (map Exporter es)" by simp_all
    then have "Exporter e @ ''.yml'' \<notin> (\<lambda>r. Exporter r @ ''.yml'') ` set es"
      by (auto simp add: image_iff)
    from ih3 [OF this] sa
    have "map_of (entries s') (Exporter e @ ''.yml'') = Some (exporter_file w cfg e)"
      by (simp add: AList.update_conv')
    with ih4 [OF d'] show ?thesis by simp
  qed
  from ih1 keys frame content show ?case by blast
qed

lemma cycle_quiet:
  assumes "loadRoleMapping w (RoleMappingFile cfg) = (m, None)"
    and "cycle w cfg s = (out, s', st)" and "no_error_printed out"
  shows "\<exists>s1 out2. cleanupTargetsDir w (TargetsDir cfg) m s = ([], s1, None) \<and>
           exporters_loop w cfg m s1 = (out2, s') \<and> no_error_printed out2"
proof -
  obtain out1 s1 cerr where c: "cleanupTargetsDir w (TargetsDir cfg) m s = (out1, s1, cerr)"
    by (cases "cleanupTargetsDir w (TargetsDir cfg) m s")
  with assms have cn: "cerr = None" by (cases cerr) (auto simp add: cycle_def)
  from cleanupTargetsDir_done [of w "TargetsDir cfg" m s out1 s1] c cn have o: "out1 = []" by simp
  obtain out2 s2 where e: "exporters_loop w cfg m s1 = (out2, s2)"
    by (cases "exporters_loop w cfg m s1")
  from assms c cn o e have "s2 = s'" and "no_error_printed out2"
    by (auto simp add: cycle_def split: prod.splits option.splits)
  with c cn o e show ?thesis by simp
qed

lemmas eval_defs = cycle_def loadRoleMapping_def yaml_Unmarshal_def cleanupTargetsDir_def ReadDir_def
  Remove_def regexp_MatchString_def regexp_plain_def regexp_meta_def ascii_def match_here_def
  writeNodes_def WriteFile_def MkdirAll_def direct_name_def path_in_def getNodes_def
  query_body_def query_string_def example_query_def
  example_world_def example_cfg_def collectd_exporter_def node_exporter_def empty_dir_def
  example_Marshal_def node_targets_def Sprint_int_def nat_decimal.simps

section \<open>The target writer\<close>

text \<open>
  Claim C8. For every node list, \<^verbatim>\<open>writeNodes\<close> serializes exactly one entry per node,
  in list order, and writes the result to \<^verbatim>\<open><job>.yml\<close>; the target of an entry is
  \<^verbatim>\<open>address:port\<close> and its labels are the four keys \<^verbatim>\<open>job\<close>, \<^verbatim>\<open>certname\<close>, \<^verbatim>\<open>metrics_path\<close>
  and \<^verbatim>\<open>scheme\<close>. For the single node \<^verbatim>\<open>n1\<close> at \<^verbatim>\<open>10.0.0.1\<close> with port 9103, path
  \<^verbatim>\<open>/metrics\<close>, scheme \<^verbatim>\<open>http\<close> and job \<^verbatim>\<open>collectd\<close> the list is the one entry of the spec.
\<close>

theorem writeNodes_entries:
  "writeNodes w nodes port path scheme job dir s =
     (case yaml_Marshal w
             (map (\<lambda>node. \<lparr>Targets = [Ipaddress node @ '':'' @ Sprint_int port],
                            Labels = [''job'' \<mapsto> job, ''certname'' \<mapsto> Certname node,
                                      ''metrics_path'' \<mapsto> path, ''scheme'' \<mapsto> scheme]\<rparr>) nodes) of
        (d, Some e) \<Rightarrow> (s, Some e)
      | (d, None) \<Rightarrow> WriteFile w dir (job @ ''.yml'') d (MkdirAll w dir s))
   \<and> dom (Labels (node_targets port path scheme job n)) =
       {''job'', ''certname'', ''metrics_path'', ''scheme''}
   \<and> all_targets 9103 ''/metrics'' ''http'' ''collectd''
         [\<lparr>Certname = ''n1'', Ipaddress = ''10.0.0.1''\<rparr>] [] =
       [\<lparr>Targets = [''10.0.0.1:9103''],
         Labels = [''job'' \<mapsto> ''collectd'', ''certname'' \<mapsto> ''n1'',
                   ''metrics_path'' \<mapsto> ''/metrics'', ''scheme'' \<mapsto> ''http'']\<rparr>]"
proof -
  have "node_targets port path scheme job =
        (\<lambda>node. \<lparr>Targets = [Ipaddress node @ '':'' @ Sprint_int port],
                   Labels = [''job'' \<mapsto> job, ''certname'' \<mapsto> Certname node,
                             ''metrics_path'' \<mapsto> path, ''scheme'' \<mapsto> scheme]\<rparr>)"
    by (rule ext) (simp add: node_targets_def)
  then have a: "writeNodes w nodes port path scheme job dir s =
     (case yaml_Marshal w
             (map (\<lambda>node. \<lparr>Targets = [Ipaddress node @ '':'' @ Sprint_int port],
                            Labels = [''job'' \<mapsto> job, ''certname'' \<mapsto> Certname node,
                                      ''metrics_path'' \<mapsto> path, ''scheme'' \<mapsto> scheme]\<rparr>) nodes) of
        (d, Some e) \<Rightarrow> (s, Some e)
      | (d, None) \<Rightarrow> WriteFile w dir (job @ ''.yml'') d (MkdirAll w dir s))"
    by (simp add: writeNodes_def all_targets_map)
  have b: "dom (Labels (node_targets port path scheme job n)) =
       {''job'', ''certname'', ''metrics_path'', ''scheme''}"
    by (auto simp add: node_targets_def)
  have c: "all_targets 9103 ''/metrics'' ''http'' ''collectd''
         [\<lparr>Certname = ''n1'', Ipaddress = ''10.0.0.1''\<rparr>] [] =
       [\<lparr>Targets = [''10.0.0.1:9103''],
         Labels = [''job'' \<mapsto> ''collectd'', ''certname'' \<mapsto> ''n1'',
                   ''metrics_path'' \<mapsto> ''/metrics'', ''scheme'' \<mapsto> ''http'']\<rparr>]"
    by (simp add: node_targets_def Sprint_int_9103)
  from a b c show ?thesis by blast
qed

section \<open>A missing target directory\<close>

text \<open>
  Claim C10. If the target directory does not exist when a cycle starts, the cycle ends
  in \<^verbatim>\<open>os.Exit(1)\<close> with the directory still missing: the listing of the reconciler fails
  before \<^verbatim>\<open>writeNodes\<close>, the only caller of \<^verbatim>\<open>os.MkdirAll\<close>, is reached, and no later cycle
  runs.
\<close>

theorem missing_dir_is_fatal:
  "\<not> dir_exists s \<Longrightarrow>
   cycle w cfg s =
     (case loadRoleMapping w (RoleMappingFile cfg) of
        (m, Some e) \<Rightarrow> ([Println e], s, Exit 1)
      | (m, None) \<Rightarrow>
          ([Println (''open '' @ TargetsDir cfg @ '': no such file or directory''),
            Println (''open '' @ TargetsDir cfg @ '': no such file or directory'')], s, Exit 1)) \<and>
   snd (main_loop (w # ws) cfg s) = (s, Some 1)"
proof -
  assume n: "\<not> dir_exists s"
  then have l: "cleanupTargetsDir w (TargetsDir cfg) m s =
      ([Println (''open '' @ TargetsDir cfg @ '': no such file or directory'')], s,
       Some (''open '' @ TargetsDir cfg @ '': no such file or directory''))" for m
    by (simp add: cleanupTargetsDir_def ReadDir_def)
  have c: "cycle w cfg s =
     (case loadRoleMapping w (RoleMappingFile cfg) of
        (m, Some e) \<Rightarrow> ([Println e], s, Exit 1)
      | (m, None) \<Rightarrow>
          ([Println (''open '' @ TargetsDir cfg @ '': no such file or directory''),
            Println (''open '' @ TargetsDir cfg @ '': no such file or directory'')], s, Exit 1))"
    by (simp add: cycle_def l split: prod.splits option.splits)
  then have "snd (cycle w cfg s) = (s, Exit 1)"
    by (simp split: prod.splits option.splits)
  then obtain out where "cycle w cfg s = (out, s, Exit 1)"
    by (cases "cycle w cfg s") simp
  then have "snd (main_loop (w # ws) cfg s) = (s, Some 1)" by simp
  with c show ?thesis by simp
qed

theorem missing_dir_is_fatal_witness:
  "\<not> dir_exists no_dir \<and>
   cycle (example_world [collectd_exporter]) example_cfg no_dir =
     ([Println ''open /targets: no such file or directory'',
       Println ''open /targets: no such file or directory''], no_dir, Exit 1) \<and>
   snd (main_loop [example_world [collectd_exporter], example_world [collectd_exporter]] example_cfg no_dir)
     = (no_dir, Some 1)"
proof -
  have h: "\<not> dir_exists no_dir" by (simp add: no_dir_def)
  have l: "loadRoleMapping (example_world [collectd_exporter]) (RoleMappingFile example_cfg)
             = ([collectd_exporter], None)"
    by (simp add: loadRoleMapping_def yaml_Unmarshal_def example_world_def)
  have t: "TargetsDir example_cfg = ''/targets''" by (simp add: example_cfg_def)
  from missing_dir_is_fatal [OF h, of "example_world [collectd_exporter]" example_cfg
         "[example_world [collectd_exporter]]"] h l t
  show ?thesis by (simp del: main_loop.simps)
qed

section \<open>An unreadable role-mapping file\<close>

text \<open>
  Claim C2. If the role-mapping file cannot be read (no bytes and an error, as when it
  does not exist), \<^verbatim>\<open>loadRoleMapping\<close> returns an empty mapping and no error, and the cycle
  proceeds: the reconciler finds no exporter for any entry of the target directory and,
  where the listing and the removals succeed, deletes them all; the exporter loop has
  nothing to do and the cycle goes on to parse the sleep duration.
\<close>

theorem unreadable_mapping_deletes_all:
  assumes "ReadFile w (filepath_Abs w (RoleMappingFile cfg)) = ([], Some e)"
    and "dir_exists s" and "ReadDir_error w (TargetsDir cfg) = None"
    and "distinct (map fst (entries s))"
    and "list_all (\<lambda>n. Remove_error w (path_in (TargetsDir cfg) n) = None) (map fst (entries s))"
  shows "loadRoleMapping w (RoleMappingFile cfg) = ([], None) \<and>
         cleanupTargetsDir w (TargetsDir cfg) [] s = ([], s\<lparr>entries := []\<rparr>, None) \<and>
         cycle w cfg s =
           (case ParseDuration w (Sleep cfg) of
              (d, Some x) \<Rightarrow> ([Println x], s\<lparr>entries := []\<rparr>, Return)
            | (d, None) \<Rightarrow> ([Printf_Sleeping d], s\<lparr>entries := []\<rparr>, Slept d))"
proof -
  from assms(1) have l: "loadRoleMapping w (RoleMappingFile cfg) = ([], None)"
    by (simp add: loadRoleMapping_def yaml_Unmarshal_def)
  from assms have c: "cleanupTargetsDir w (TargetsDir cfg) [] s = ([], s\<lparr>entries := []\<rparr>, None)"
    by (intro cleanupTargetsDir_no_roles)
  from l c show ?thesis by (simp add: cycle_def split: prod.splits option.splits)
qed

theorem unreadable_mapping_deletes_all_witness:
  "ReadFile (unreadable_world [collectd_exporter])
     (filepath_Abs (unreadable_world [collectd_exporter]) (RoleMappingFile example_cfg))
     = ([], Some ''open /app/role-mapping.yaml: no such file or directory'') \<and>
   loadRoleMapping (unreadable_world [collectd_exporter]) (RoleMappingFile example_cfg) = ([], None) \<and>
   cleanupTargetsDir (unreadable_world [collectd_exporter]) (TargetsDir example_cfg) [] populated_dir
     = ([], empty_dir, None) \<and>
   cycle (unreadable_world [collectd_exporter]) example_cfg populated_dir
     = ([Printf_Sleeping 60000000000], empty_dir, Slept 60000000000)"
proof -
  let ?w = "unreadable_world [collectd_exporter]"
  have h1: "ReadFile ?w (filepath_Abs ?w (RoleMappingFile example_cfg))
     = ([], Some ''open /app/role-mapping.yaml: no such file or directory'')"
    by (simp add: unreadable_world_def example_world_def example_cfg_def)
  have h2: "dir_exists populated_dir" by (simp add: populated_dir_def)
  have h3: "ReadDir_error ?w (TargetsDir example_cfg) = None"
    by (simp add: unreadable_world_def example_world_def)
  have h4: "distinct (map fst (entries populated_dir))" by (simp add: populated_dir_def)
  have h5: "list_all (\<lambda>n. Remove_error ?w (path_in (TargetsDir example_cfg) n) = None)
              (map fst (entries populated_dir))"
    by (simp add: unreadable_world_def example_world_def populated_dir_def)
  have e: "populated_dir\<lparr>entries := []\<rparr> = empty_dir"
    by (simp add: populated_dir_def empty_dir_def)
  have p: "ParseDuration ?w (Sleep example_cfg) = (60000000000, None)"
    by (simp add: unreadable_world_def example_world_def example_cfg_def)
  from unreadable_mapping_deletes_all [OF h1 h2 h3 h4 h5] h1 e p show ?thesis by simp
qed

section \<open>Failures inside the exporter loop\<close>

text \<open>
  Claim C6. When the inventory query for one role of an exporter fails, the loop over
  its roles stops there; the nodes of the roles before it are still serialized and
  written to the exporter's target file, and the loop over the exporters goes on with
  the next exporter.
\<close>

theorem query_failure_writes_partial_nodes:
  assumes "Roles e = pre @ r # post"
    and "list_all (\<lambda>r. snd (getNodes w (PuppetDBURL cfg) (Query cfg) (Filter cfg) r) = None) pre"
    and "snd (getNodes w (PuppetDBURL cfg) (Query cfg) (Filter cfg) r) = Some x"
    and "dir_exists s" and "direct_name (Exporter e)"
    and "yaml_Marshal w
           (map (node_targets (Port e) (Path e) (Scheme e) (Exporter e))
              (concat (map (\<lambda>r. fst (getNodes w (PuppetDBURL cfg) (Query cfg) (Filter cfg) r)) pre)))
         = (d, None)"
    and "WriteFile_fault w (path_in (TargetsDir cfg) (Exporter e @ ''.yml'')) = None"
  shows "roles_loop w cfg (Roles e) [] =
           ([Println x],
            concat (map (\<lambda>r. fst (getNodes w (PuppetDBURL cfg) (Query cfg) (Filter cfg) r)) pre)) \<and>
         exporters_loop w cfg (e # es) s =
           (Println x #
              fst (exporters_loop w cfg es
                     (s\<lparr>entries := AList.update (Exporter e @ ''.yml'') d (entries s)\<rparr>)),
            snd (exporters_loop w cfg es
                   (s\<lparr>entries := AList.update (Exporter e @ ''.yml'') d (entries s)\<rparr>)))"
proof -
  let ?acc = "concat (map (\<lambda>r. fst (getNodes w (PuppetDBURL cfg) (Query cfg) (Filter cfg) r)) pre)"
  from roles_loop_failure [OF assms(2) assms(3), of post "[]"] assms(1)
  have r: "roles_loop w cfg (Roles e) [] = ([Println x], ?acc)" by simp
  from writeNodes_ok [OF assms(4) assms(5) assms(6) assms(7)]
  have wr: "writeNodes w ?acc (Port e) (Path e) (Scheme e) (Exporter e) (TargetsDir cfg) s =
          (s\<lparr>entries := AList.update (Exporter e @ ''.yml'') d (entries s)\<rparr>, None)" .
  from r wr show ?thesis by (simp add: case_prod_unfold Let_def)
qed

theorem query_failure_writes_partial_nodes_witness:
  "roles_loop (query_fault_world [node_exporter, collectd_exporter]) example_cfg (Roles node_exporter) []
     = ([Println ''Post /pdb/query/v4: connection refused''],
        [\<lparr>Certname = ''n1'', Ipaddress = ''10.0.0.1''\<rparr>]) \<and>
   exporters_loop (query_fault_world [node_exporter, collectd_exporter]) example_cfg [node_exporter, collectd_exporter] empty_dir
     = ([Println ''Post /pdb/query/v4: connection refused''],
        \<lparr>dir_exists = True,
           entries = [(''node.yml'', ''10.0.0.1:9100'' @ [CHR 0x0A]),
                      (''collectd.yml'', ''10.0.0.1:9103'' @ [CHR 0x0A])]\<rparr>)"
proof -
  let ?w = "query_fault_world [node_exporter, collectd_exporter]"
  let ?n1 = "\<lparr>Certname = ''n1'', Ipaddress = ''10.0.0.1''\<rparr>"
  have web: "getNodes ?w (PuppetDBURL example_cfg) (Query example_cfg) (Filter example_cfg) ''web''
               = ([?n1], None)"
    by (simp add: eval_defs query_fault_world_def)
  have db: "getNodes ?w (PuppetDBURL example_cfg) (Query example_cfg) (Filter example_cfg) ''db''
               = ([], Some ''Post /pdb/query/v4: connection refused'')"
    by (simp add: eval_defs query_fault_world_def)
  have h1: "Roles node_exporter = [''web''] @ ''db'' # []" by (simp add: node_exporter_def)
  have h2: "list_all (\<lambda>r. snd (getNodes ?w (PuppetDBURL example_cfg) (Query example_cfg)
                                  (Filter example_cfg) r) = None) [''web'']"
    using web by simp
  have h3: "snd (getNodes ?w (PuppetDBURL example_cfg) (Query example_cfg) (Filter example_cfg) ''db'')
              = Some ''Post /pdb/query/v4: connection refused''"
    using db by simp
  have h4: "dir_exists empty_dir" by (simp add: empty_dir_def)
  have h5: "direct_name (Exporter node_exporter)" by (simp add: node_exporter_def direct_name_def)
  have h6: "yaml_Marshal ?w
           (map (node_targets (Port node_exporter) (Path node_exporter) (Scheme node_exporter) (Exporter node_exporter))
              (concat (map (\<lambda>r. fst (getNodes ?w (PuppetDBURL example_cfg) (Query example_cfg)
                                         (Filter example_cfg) r)) [''web''])))
         = (''10.0.0.1:9100'' @ [CHR 0x0A], None)"
    using web by (simp add: eval_defs query_fault_world_def)
  have h7: "WriteFile_fault ?w (path_in (TargetsDir example_cfg) (Exporter node_exporter @ ''.yml'')) = None"
    by (simp add: query_fault_world_def example_world_def)
  have rest: "exporters_loop ?w example_cfg [collectd_exporter]
                (empty_dir\<lparr>entries := AList.update (Exporter node_exporter @ ''.yml'')
                                        (''10.0.0.1:9100'' @ [CHR 0x0A]) (entries empty_dir)\<rparr>)
     = ([], \<lparr>dir_exists = True,
           entries = [(''node.yml'', ''10.0.0.1:9100'' @ [CHR 0x0A]),
                      (''collectd.yml'', ''10.0.0.1:9103'' @ [CHR 0x0A])]\<rparr>)"
    using web by (simp add: eval_defs query_fault_world_def)
  from query_failure_writes_partial_nodes [OF h1 h2 h3 h4 h5 h6 h7, of "[collectd_exporter]"]
    web rest
  show ?thesis by (simp del: exporters_loop.simps roles_loop.simps)
qed

text \<open>
  Claim C5 does not hold as stated: a failed write leaves the loop over the exporters,
  so the exporters after the failing one are not processed in that cycle. In the
  example below the write of \<^verbatim>\<open>collectd.yml\<close> fails and \<^verbatim>\<open>node.yml\<close> is never written,
  while the same mapping without the fault yields both files.
\<close>

theorem write_failure_skips_later_exporters:
  "snd (writeNodes (write_fault_world [collectd_exporter, node_exporter])
          [\<lparr>Certname = ''n1'', Ipaddress = ''10.0.0.1''\<rparr>] 9103 ''/metrics'' ''http'' ''collectd''
          ''/targets'' empty_dir)
     = Some ''open /targets/collectd.yml: permission denied'' \<and>
   cycle (write_fault_world [collectd_exporter, node_exporter]) example_cfg empty_dir
     = ([Println ''open /targets/collectd.yml: permission denied'', Printf_Sleeping 60000000000],
        empty_dir, Slept 60000000000) \<and>
   cycle (example_world [collectd_exporter, node_exporter]) example_cfg empty_dir
     = ([Printf_Sleeping 60000000000],
        \<lparr>dir_exists = True,
           entries = [(''collectd.yml'', ''10.0.0.1:9103'' @ [CHR 0x0A]),
                      (''node.yml'', ''10.0.0.1:9100'' @ [CHR 0x0A])]\<rparr>,
        Slept 60000000000)"
  by (simp add: eval_defs write_fault_world_def)

text \<open>
  Claim C5, amended. A failure to write one exporter's target file ends the loop over
  the exporters for the current cycle: the loop prints and leaves the target directory
  exactly as if the failing exporter were the last of the mapping. The cycle then
  sleeps, and the loop goes round to the next cycle.
\<close>

theorem write_failure_ends_exporter_loop:
  assumes "loadRoleMapping w (RoleMappingFile cfg) = (pre @ e # post, None)"
    and "cleanupTargetsDir w (TargetsDir cfg) (pre @ e # post) s = (out1, s1, None)"
    and "snd (writeNodes w (snd (roles_loop w cfg (Roles e) [])) (Port e) (Path e) (Scheme e)
                (Exporter e) (TargetsDir cfg) (snd (exporters_loop w cfg pre s1))) = Some x"
    and "ParseDuration w (Sleep cfg) = (d, None)"
  shows "exporters_loop w cfg (pre @ e # post) s1 = exporters_loop w cfg (pre @ [e]) s1 \<and>
         cycle w cfg s =
           (out1 @ fst (exporters_loop w cfg (pre @ [e]) s1) @ [Printf_Sleeping d],
            snd (exporters_loop w cfg (pre @ [e]) s1), Slept d) \<and>
         main_loop (w # ws) cfg s =
           (out1 @ fst (exporters_loop w cfg (pre @ [e]) s1) @ [Printf_Sleeping d]
              @ fst (main_loop ws cfg (snd (exporters_loop w cfg (pre @ [e]) s1))),
            snd (main_loop ws cfg (snd (exporters_loop w cfg (pre @ [e]) s1))))"
proof -
  from exporters_loop_break [OF assms(3)]
  have b: "exporters_loop w cfg (pre @ e # post) s1 = exporters_loop w cfg (pre @ [e]) s1" .
  with assms(1,2,4) have c: "cycle w cfg s =
           (out1 @ fst (exporters_loop w cfg (pre @ [e]) s1) @ [Printf_Sleeping d],
            snd (exporters_loop w cfg (pre @ [e]) s1), Slept d)"
    by (simp add: cycle_def case_prod_unfold Let_def)
  then have "main_loop (w # ws) cfg s =
           (out1 @ fst (exporters_loop w cfg (pre @ [e]) s1) @ [Printf_Sleeping d]
              @ fst (main_loop ws cfg (snd (exporters_loop w cfg (pre @ [e]) s1))),
            snd (main_loop ws cfg (snd (exporters_loop w cfg (pre @ [e]) s1))))"
    by (simp add: case_prod_unfold Let_def)
  with b c show ?thesis by blast
qed

theorem write_failure_ends_exporter_loop_witness:
  "exporters_loop (write_fault_world [collectd_exporter, node_exporter]) example_cfg
     ([] @ collectd_exporter # [node_exporter]) empty_dir
     = exporters_loop (write_fault_world [collectd_exporter, node_exporter]) example_cfg
         ([] @ [collectd_exporter]) empty_dir \<and>
   cycle (write_fault_world [collectd_exporter, node_exporter]) example_cfg empty_dir
     = ([Println ''open /targets/collectd.yml: permission denied'', Printf_Sleeping 60000000000],
        empty_dir, Slept 60000000000) \<and>
   main_loop [write_fault_world [collectd_exporter, node_exporter]] example_cfg empty_dir
     = ([Println ''open /targets/collectd.yml: permission denied'', Printf_Sleeping 60000000000],
        empty_dir, None)"
proof -
  let ?w = "write_fault_world [collectd_exporter, node_exporter]"
  have h1: "loadRoleMapping ?w (RoleMappingFile example_cfg)
              = ([] @ collectd_exporter # [node_exporter], None)"
    by (simp add: eval_defs write_fault_world_def)
  have h2: "cleanupTargetsDir ?w (TargetsDir example_cfg) ([] @ collectd_exporter # [node_exporter])
              empty_dir
              = ([], empty_dir, None)"
    by (simp add: eval_defs write_fault_world_def)
  have h3: "snd (writeNodes ?w (snd (roles_loop ?w example_cfg (Roles collectd_exporter) []))
                (Port collectd_exporter) (Path collectd_exporter) (Scheme collectd_exporter)
                (Exporter collectd_exporter) (TargetsDir example_cfg)
                (snd (exporters_loop ?w example_cfg [] empty_dir)))
              = Some ''open /targets/collectd.yml: permission denied''"
    by (simp add: eval_defs write_fault_world_def)
  have h4: "ParseDuration ?w (Sleep example_cfg) = (60000000000, None)"
    by (simp add: eval_defs write_fault_world_def)
  have one: "exporters_loop ?w example_cfg [collectd_exporter] empty_dir
               = ([Println ''open /targets/collectd.yml: permission denied''], empty_dir)"
    by (simp add: eval_defs write_fault_world_def)
  from write_failure_ends_exporter_loop [OF h1 h2 h3 h4, of "[]"] one
  show ?thesis by (simp del: exporters_loop.simps roles_loop.simps)
qed

section \<open>The target directory after a cycle\<close>

text \<open>
  Claim C3 does not hold as stated: the reconciler keeps an entry \<^verbatim>\<open><exporter>.yaml\<close> of a
  current exporter, and the writer adds \<^verbatim>\<open><exporter>.yml\<close> beside it. With the one exporter
  \<^verbatim>\<open>collectd\<close> and a directory that holds \<^verbatim>\<open>collectd.yaml\<close>, the directory holds two files
  after a cycle without any error.
\<close>

theorem stale_yaml_file_is_kept:
  "length [collectd_exporter] = 1 \<and>
   cycle (example_world [collectd_exporter]) example_cfg stale_dir
     = ([Printf_Sleeping 60000000000],
        \<lparr>dir_exists = True,
           entries = [(''collectd.yaml'', ''10.0.0.9:9103'' @ [CHR 0x0A]),
                      (''collectd.yml'', ''10.0.0.1:9103'' @ [CHR 0x0A])]\<rparr>,
        Slept 60000000000) \<and>
   fst (ReadDir (example_world [collectd_exporter]) (TargetsDir example_cfg)
          (fst (snd (cycle (example_world [collectd_exporter]) example_cfg stale_dir))))
     = [''collectd.yaml'', ''collectd.yml'']"
  by (simp add: eval_defs stale_dir_def)

text \<open>
  Claim C3, amended. Take a mapping of exporters with distinct names, none with a path
  separator, and a cycle that prints no error. After it the target directory holds, for
  every exporter, the file \<^verbatim>\<open><exporter>.yml\<close> with the serialized entries of the nodes of
  its roles; for an exporter all of whose roles have no node this is the serialized
  empty list. Every other entry of the directory was there before the cycle, was kept by
  the reconciler and has the content it had.
\<close>

theorem successful_cycle_files:
  assumes "loadRoleMapping w (RoleMappingFile cfg) = (m, None)"
    and "cycle w cfg s = (out, s', st)" and "no_error_printed out"
    and "distinct (map Exporter m)"
    and "list_all (\<lambda>r. direct_name (Exporter r)) m"
  shows "(\<forall>r\<in>set m. map_of (entries s') (Exporter r @ ''.yml'') = Some (exporter_file w cfg r)) \<and>
         (\<forall>r\<in>set m. list_all (\<lambda>role. fst (getNodes w (PuppetDBURL cfg) (Query cfg) (Filter cfg) role) = [])
                        (Roles r) \<longrightarrow>
                     map_of (entries s') (Exporter r @ ''.yml'') = Some (fst (yaml_Marshal w []))) \<and>
         (\<forall>n\<in>fst ` set (entries s').
            n \<in> (\<lambda>r. Exporter r @ ''.yml'') ` set m \<or>
            found_any w m n \<and> map_of (entries s') n = map_of (entries s) n)"
proof -
  from cycle_quiet [OF assms(1,2,3)] obtain s1 out2 where
    c: "cleanupTargetsDir w (TargetsDir cfg) m s = ([], s1, None)"
    and e: "exporters_loop w cfg m s1 = (out2, s')" and q: "no_error_printed out2" by blast
  from cleanupTargetsDir_done [OF c] have d1: "dir_exists s1"
    and f: "entries s1 = filter (\<lambda>(n, d). found_any w m n) (entries s)" by simp_all
  from exporters_loop_quiet [OF e q d1 assms(5)] assms(4)
  have keys: "fst ` set (entries s') = fst ` set (entries s1) \<union> (\<lambda>r. Exporter r @ ''.yml'') ` set m"
    and frame: "\<And>n. n \<notin> (\<lambda>r. Exporter r @ ''.yml'') ` set m \<Longrightarrow>
                  map_of (entries s') n = map_of (entries s1) n"
    and content: "\<forall>r\<in>set m. map_of (entries s') (Exporter r @ ''.yml'') = Some (exporter_file w cfg r)"
    by blast+
  have zero: "map_of (entries s') (Exporter r @ ''.yml'') = Some (fst (yaml_Marshal w []))"
    if "r \<in> set m"
      and "list_all (\<lambda>role. fst (getNodes w (PuppetDBURL cfg) (Query cfg) (Filter cfg) role) = []) (Roles r)"
    for r
  proof -
    from that(2) have cc: "concat (map (\<lambda>role. fst (getNodes w (PuppetDBURL cfg) (Query cfg) (Filter cfg) role))
                          (Roles r)) = []"
      by (simp add: list_all_iff)
    have "exporter_file w cfg r = fst (yaml_Marshal w [])"
      by (simp add: exporter_file_def cc)
    with content that(1) show ?thesis by simp
  qed
  have other: "n \<in> (\<lambda>r. Exporter r @ ''.yml'') ` set m \<or>
            found_any w m n \<and> map_of (entries s') n = map_of (entries s) n"
    if "n \<in> fst ` set (entries s')" for n
  proof (cases "n \<in> (\<lambda>r. Exporter r @ ''.yml'') ` set m")
    case True
    then show ?thesis by simp
  next
    case False
    with that keys have "n \<in> fst ` set (entries s1)" by auto
    with f have "found_any w m n" by auto
    moreover from frame [OF False] f have "map_of (entries s') n = map_of (entries s) n"
      using \<open>found_any w m n\<close> by (simp add: map_of_filter_name)
    ultimately show ?thesis by simp
  qed
  from content zero other show ?thesis by blast
qed

theorem successful_cycle_files_witness:
  "cycle (example_world [collectd_exporter, node_exporter]) example_cfg stale_dir
     = ([Printf_Sleeping 60000000000],
        \<lparr>dir_exists = True,
           entries = [(''collectd.yaml'', ''10.0.0.9:9103'' @ [CHR 0x0A]),
                      (''collectd.yml'', ''10.0.0.1:9103'' @ [CHR 0x0A]),
                      (''node.yml'', ''10.0.0.1:9100'' @ [CHR 0x0A])]\<rparr>,
        Slept 60000000000) \<and>
   no_error_printed [Printf_Sleeping 60000000000] \<and>
   map_of (entries (fst (snd (cycle (example_world [collectd_exporter, node_exporter])
                               example_cfg stale_dir))))
     (Exporter node_exporter @ ''.yml'')
     = Some (exporter_file (example_world [collectd_exporter, node_exporter]) example_cfg
               node_exporter)"
proof -
  let ?w = "example_world [collectd_exporter, node_exporter]"
  have h1: "loadRoleMapping ?w (RoleMappingFile example_cfg)
              = ([collectd_exporter, node_exporter], None)"
    by (simp add: eval_defs)
  have h2: "cycle ?w example_cfg stale_dir
     = ([Printf_Sleeping 60000000000],
        \<lparr>dir_exists = True,
           entries = [(''collectd.yaml'', ''10.0.0.9:9103'' @ [CHR 0x0A]),
                      (''collectd.yml'', ''10.0.0.1:9103'' @ [CHR 0x0A]),
                      (''node.yml'', ''10.0.0.1:9100'' @ [CHR 0x0A])]\<rparr>,
        Slept 60000000000)"
    by (simp add: eval_defs stale_dir_def)
  have h3: "no_error_printed [Printf_Sleeping 60000000000]" by simp
  have h4: "distinct (map Exporter [collectd_exporter, node_exporter])"
    by (simp add: collectd_exporter_def node_exporter_def)
  have h5: "list_all (\<lambda>r. direct_name (Exporter r)) [collectd_exporter, node_exporter]"
    by (simp add: collectd_exporter_def node_exporter_def direct_name_def)
  from successful_cycle_files [OF h1 h2 h3 h4 h5] h2 h3 show ?thesis by simp
qed

text \<open>
  Claim C9. Two consecutive cycles in the same world (same role mapping, same inventory
  answers, same behaviour of the file system) that both reach the sleep leave the same
  target files: the directory after the second cycle has the names and contents it had
  after the first. The exporters' names have no path separator.
\<close>

theorem consecutive_cycles_same_files:
  assumes "cycle w cfg s0 = (out1, s1, Slept d1)"
    and "cycle w cfg s1 = (out2, s2, Slept d2)"
    and "list_all (\<lambda>r. direct_name (Exporter r)) (fst (loadRoleMapping w (RoleMappingFile cfg)))"
  shows "map_of (entries s2) = map_of (entries s1) \<and> dir_exists s1 \<and> dir_exists s2"
proof -
  let ?m = "fst (loadRoleMapping w (RoleMappingFile cfg))"
  from cycle_Slept [OF assms(1)] obtain t1 where
    c1: "cleanupTargetsDir w (TargetsDir cfg) ?m s0 = ([], t1, None)"
    and s1: "s1 = snd (exporters_loop w cfg ?m t1)" by blast
  from cycle_Slept [OF assms(2)] obtain t2 where
    c2: "cleanupTargetsDir w (TargetsDir cfg) ?m s1 = ([], t2, None)"
    and s2: "s2 = snd (exporters_loop w cfg ?m t2)" by blast
  from cleanupTargetsDir_done [OF c1] have e1: "dir_exists t1"
    and f1: "entries t1 = filter (\<lambda>(n, d). found_any w ?m n) (entries s0)" by simp_all
  from cleanupTargetsDir_done [OF c2] have e2: "dir_exists t2"
    and f2: "entries t2 = filter (\<lambda>(n, d). found_any w ?m n) (entries s1)" by simp_all
  let ?U = "map_of (entries (snd (exporters_loop w cfg ?m (t1\<lparr>entries := []\<rparr>))))"
  from e1 e2 have z: "t2\<lparr>entries := []\<rparr> = t1\<lparr>entries := []\<rparr>" by simp
  from exporters_loop_map [OF e1 assms(3), of w cfg] s1
  have x1: "dir_exists s1" and m1: "map_of (entries s1) = map_of (entries t1) ++ ?U" by simp_all
  from exporters_loop_map [OF e2 assms(3), of w cfg] s2 z
  have x2: "dir_exists s2" and m2: "map_of (entries s2) = map_of (entries t2) ++ ?U" by simp_all
  have "map_of (entries s2) k = map_of (entries s1) k" for k
    by (simp add: m2 m1 f1 f2 map_of_filter_name map_add_def split: option.splits)
  then have "map_of (entries s2) = map_of (entries s1)" by (rule ext)
  with x1 x2 show ?thesis by simp
qed

theorem consecutive_cycles_same_files_witness:
  "cycle (example_world [collectd_exporter, node_exporter]) example_cfg stale_dir
     = ([Printf_Sleeping 60000000000],
        \<lparr>dir_exists = True,
           entries = [(''collectd.yaml'', ''10.0.0.9:9103'' @ [CHR 0x0A]),
                      (''collectd.yml'', ''10.0.0.1:9103'' @ [CHR 0x0A]),
                      (''node.yml'', ''10.0.0.1:9100'' @ [CHR 0x0A])]\<rparr>,
        Slept 60000000000) \<and>
   map_of (entries (fst (snd (cycle (example_world [collectd_exporter, node_exporter]) example_cfg
                               (fst (snd (cycle (example_world [collectd_exporter, node_exporter])
                                            example_cfg stale_dir)))))))
     = map_of (entries (fst (snd (cycle (example_world [collectd_exporter, node_exporter])
                                    example_cfg stale_dir))))"
proof -
  let ?w = "example_world [collectd_exporter, node_exporter]"
  let ?s1 = "\<lparr>dir_exists = True,
           entries = [(''collectd.yaml'', ''10.0.0.9:9103'' @ [CHR 0x0A]),
                      (''collectd.yml'', ''10.0.0.1:9103'' @ [CHR 0x0A]),
                      (''node.yml'', ''10.0.0.1:9100'' @ [CHR 0x0A])]\<rparr>"
  have h1: "cycle ?w example_cfg stale_dir
              = ([Printf_Sleeping 60000000000], ?s1, Slept 60000000000)"
    by (simp add: eval_defs stale_dir_def)
  have h2: "cycle ?w example_cfg ?s1 = ([Printf_Sleeping 60000000000], ?s1, Slept 60000000000)"
    by (simp add: eval_defs)
  have h3: "list_all (\<lambda>r. direct_name (Exporter r))
              (fst (loadRoleMapping ?w (RoleMappingFile example_cfg)))"
    by (simp add: eval_defs)
  from consecutive_cycles_same_files [OF h1 h2 h3] h1 h2 show ?thesis by simp
qed

section \<open>Where the program departs from its specification\<close>

text \<open>
  Claim C1 at a failing input. The role-mapping file cannot be opened; the program
  prints no error, does not exit, empties the target directory and sleeps, cycle after
  cycle.
\<close>

theorem unreadable_mapping_not_fatal:
  "main_loop [unreadable_world [collectd_exporter], unreadable_world [collectd_exporter]]
     example_cfg populated_dir
     = ([Printf_Sleeping 60000000000, Printf_Sleeping 60000000000], empty_dir, None)"
  by (simp add: eval_defs unreadable_world_def populated_dir_def)

text \<open>
  Claim C7 at a failing input. The sleep duration \<^verbatim>\<open>forever\<close> does not parse; the loop is
  left by \<^verbatim>\<open>break\<close>, \<^verbatim>\<open>main\<close> returns and the exit status of the process is 0.
\<close>

theorem sleep_parse_failure_exit_status:
  "cycle (example_world []) (example_cfg\<lparr>Sleep := ''forever''\<rparr>) empty_dir
     = ([Println ''time: invalid duration forever''], empty_dir, Return) \<and>
   main_loop [example_world [], example_world []] (example_cfg\<lparr>Sleep := ''forever''\<rparr>) empty_dir
     = ([Println ''time: invalid duration forever''], empty_dir, Some 0)"
  by (simp add: eval_defs)

text \<open>
  Claim C4 at a failing input. The mapping has the one exporter \<^verbatim>\<open>exporter\<close>; the entry
  \<^verbatim>\<open>unknown-exporter.yml\<close> is named for no exporter, yet the pattern
  \<^verbatim>\<open>exporter.(yaml|yml)\<close> is found inside its name and the reconciler keeps it.
\<close>

theorem unanchored_pattern_keeps_orphan:
  "cleanupTargetsDir (example_world []) ''/targets''
     [\<lparr>Exporter = ''exporter'', Port = 9100, Path = ''/metrics'', Scheme = ''http'', Roles = []\<rparr>]
     \<lparr>dir_exists = True, entries = [(''unknown-exporter.yml'', ''10.0.0.9:9100'')]\<rparr>
   = ([], \<lparr>dir_exists = True, entries = [(''unknown-exporter.yml'', ''10.0.0.9:9100'')]\<rparr>, None)"
  by (simp add: eval_defs)

end
